theory Spec2Isabelle
  imports Main
begin

section \<open>JavaScript values\<close>

text \<open>
  The adapter of \<^verbatim>\<open>src/lib/AmazonSESAdapter.js\<close> is dynamically typed: its
  configuration, its templates and the result of a template's callback are arbitrary
  JavaScript values, and the code decides by truthiness, by \<^verbatim>\<open>typeof\<close> and by
  property lookup. The values modelled here are the primitives, arrays, plain objects (object
  literals, whose prototype is \<^verbatim>\<open>Object.prototype\<close>; the list holds the own
  properties, the first binding of a key being the property) and functions. A function value
  carries its \<^verbatim>\<open>name\<close> and its behaviour when called with the user object, which is
  the only way the adapter calls one; the call returns or throws.

  The source file holds the class twice, compiled and as the ES module it was compiled from.
  The line numbers below are those of the compiled class, lines 51-307. The ES module has the
  same constructor and the same control flow in \<^verbatim>\<open>_sendMail\<close>; it differs in the shape of
  the payload, which its transport client expects nested, and passes no configuration set.

  The host's user object is the capability \<^verbatim>\<open>user.get(name)\<close>, giving a string or
  \<^verbatim>\<open>undefined\<close>.
\<close>

type_synonym user = "string \<Rightarrow> string option"

datatype jserror = Error string | TypeError

datatype jsval =
    Undefined
  | Null
  | Bool bool
  | Num int
  | Str string
  | Arr "jsval list"
  | Obj "(string \<times> jsval) list"
  | Fn string "user option \<Rightarrow> jserror + jsval"

text \<open>Truthiness, as \<^verbatim>\<open>!x\<close>, \<^verbatim>\<open>x && y\<close> and \<^verbatim>\<open>x || y\<close> use it.\<close>

fun truthy :: "jsval \<Rightarrow> bool" where
  "truthy Undefined = False"
| "truthy Null = False"
| "truthy (Bool b) = b"
| "truthy (Num n) = (n \<noteq> 0)"
| "truthy (Str s) = (s \<noteq> [])"
| "truthy (Arr xs) = True"
| "truthy (Obj kvs) = True"
| "truthy (Fn n f) = True"

definition js_or :: "jsval \<Rightarrow> jsval \<Rightarrow> jsval" where
  "js_or a b = (if truthy a then a else b)"

fun is_undefined :: "jsval \<Rightarrow> bool" where
  "is_undefined Undefined = True"
| "is_undefined _ = False"

text \<open>Reading a property of \<^verbatim>\<open>undefined\<close> or \<^verbatim>\<open>null\<close> raises a TypeError.\<close>

fun nullish :: "jsval \<Rightarrow> bool" where
  "nullish Undefined = True"
| "nullish Null = True"
| "nullish _ = False"

text \<open>\<^verbatim>\<open>typeof x === 'string'\<close> and \<^verbatim>\<open>typeof x === 'function'\<close>.\<close>

fun is_string :: "jsval \<Rightarrow> bool" where
  "is_string (Str s) = True"
| "is_string _ = False"

fun is_function :: "jsval \<Rightarrow> bool" where
  "is_function (Fn n f) = True"
| "is_function _ = False"

text \<open>
  \<^verbatim>\<open>x.k\<close> for the fixed property names the adapter reads (\<^verbatim>\<open>subject\<close>,
  \<^verbatim>\<open>pathPlainText\<close>, \<^verbatim>\<open>callback\<close>, \<^verbatim>\<open>accessKeyId\<close>, ...) on a value
  that is not \<^verbatim>\<open>undefined\<close> or \<^verbatim>\<open>null\<close> (each use is guarded by
  \<open>nullish\<close> or by truthiness). None of these names is a member of a built-in prototype, so
  the result is the own property of a plain object and \<^verbatim>\<open>undefined\<close> on anything
  else.
\<close>

fun field :: "jsval \<Rightarrow> string \<Rightarrow> jsval" where
  "field (Obj kvs) k = (case map_of kvs k of Some v \<Rightarrow> v | None \<Rightarrow> Undefined)"
| "field _ k = Undefined"

text \<open>
  A lookup under a name that the caller chooses, or under \<^verbatim>\<open>constructor\<close>, also
  finds what the object inherits. Its result is an own property, a built-in that comes from
  the prototype chain (named), or nothing (\<^verbatim>\<open>undefined\<close>).
\<close>

datatype member = Own jsval | Builtin string | Absent

fun member_truthy :: "member \<Rightarrow> bool" where
  "member_truthy (Own v) = truthy v"
| "member_truthy (Builtin n) = True"
| "member_truthy Absent = False"

text \<open>The property names of \<^verbatim>\<open>Object.prototype\<close>; each holds a truthy built-in.\<close>

definition object_prototype :: "string list" where
  "object_prototype =
     [''constructor'', ''__defineGetter__'', ''__defineSetter__'', ''hasOwnProperty'',
      ''__lookupGetter__'', ''__lookupSetter__'', ''isPrototypeOf'', ''propertyIsEnumerable'',
      ''toString'', ''valueOf'', ''__proto__'', ''toLocaleString'']"

text \<open>\<^verbatim>\<open>obj[k]\<close> on a plain object with own properties \<open>kvs\<close>.\<close>

definition get_member :: "(string \<times> jsval) list \<Rightarrow> string \<Rightarrow> member" where
  "get_member kvs k =
     (case map_of kvs k of
        Some v \<Rightarrow> Own v
      | None \<Rightarrow> if k \<in> set object_prototype then Builtin k else Absent)"

text \<open>
  \<^verbatim>\<open>m.k\<close> for the fixed, non-inherited property names on the result of such a
  lookup: the built-ins of \<^verbatim>\<open>Object.prototype\<close> have none of them.
\<close>

fun member_field :: "member \<Rightarrow> string \<Rightarrow> jsval" where
  "member_field (Own v) k = field v k"
| "member_field (Builtin n) k = Undefined"
| "member_field Absent k = Undefined"

text \<open>
  \<^verbatim>\<open>v.constructor\<close> on a value that is not \<^verbatim>\<open>undefined\<close> or \<^verbatim>\<open>null\<close>: an
  own property of a plain object shadows the inherited \<^verbatim>\<open>Object\<close>; every other value
  inherits the constructor of its kind.
\<close>

fun get_constructor :: "jsval \<Rightarrow> member" where
  "get_constructor (Obj kvs) =
     (case map_of kvs ''constructor'' of Some c \<Rightarrow> Own c | None \<Rightarrow> Builtin ''Object'')"
| "get_constructor (Bool b) = Builtin ''Boolean''"
| "get_constructor (Num n) = Builtin ''Number''"
| "get_constructor (Str s) = Builtin ''String''"
| "get_constructor (Arr xs) = Builtin ''Array''"
| "get_constructor (Fn n f) = Builtin ''Function''"
| "get_constructor Undefined = Absent"
| "get_constructor Null = Absent"

text \<open>
  \<^verbatim>\<open>c.name\<close> for a truthy \<^verbatim>\<open>c\<close>: the name of a function, the own property of a
  plain object, \<^verbatim>\<open>undefined\<close> otherwise.
\<close>

fun member_name :: "member \<Rightarrow> jsval" where
  "member_name (Builtin n) = Str n"
| "member_name (Own (Fn n f)) = Str n"
| "member_name (Own (Obj kvs)) = field (Obj kvs) ''name''"
| "member_name (Own v) = Undefined"
| "member_name Absent = Undefined"

text \<open>\<^verbatim>\<open>x === 'Object'\<close>.\<close>

fun is_Object_name :: "jsval \<Rightarrow> bool" where
  "is_Object_name (Str s) = (s = ''Object'')"
| "is_Object_name _ = False"

text \<open>
  \<^verbatim>\<open>Object.assign(target, source)\<close> for a target with own properties \<open>target\<close>:
  the own properties of a plain object are written over the target's; \<^verbatim>\<open>undefined\<close>
  is skipped. (The adapter passes nothing else: see \<open>userVars\<close> below.) The properties are
  written by assignment, and assigning to \<^verbatim>\<open>__proto__\<close> runs the setter that the
  target inherits from \<^verbatim>\<open>Object.prototype\<close>: an own property \<^verbatim>\<open>__proto__\<close> of the
  source gives the target no own property. (For a value that is an object or
  \<^verbatim>\<open>null\<close> the setter replaces the prototype of the target; the result is given here
  by its own properties.)
\<close>

fun object_assign :: "(string \<times> jsval) list \<Rightarrow> jsval \<Rightarrow> jsval" where
  "object_assign target (Obj kvs) = Obj (filter (\<lambda>kv. fst kv \<noteq> ''__proto__'') kvs @ target)"
| "object_assign target _ = Obj target"

definition attr :: "string option \<Rightarrow> jsval" where
  "attr a = (case a of None \<Rightarrow> Undefined | Some s \<Rightarrow> Str s)"


section \<open>The adapter and its construction\<close>

record ses_client =
  accessKeyId :: jsval
  secretAccessKey :: jsval
  region :: jsval

text \<open>
  \<^verbatim>\<open>this.templates\<close> is kept as the own properties of the configured templates
  object: construction succeeds on plain objects only (lemmas \<open>forEach_slots_plain\<close> and
  \<open>constructor_templates_plain\<close>).
\<close>

record adapter =
  ses :: ses_client
  fromAddress :: jsval
  templates :: "(string \<times> jsval) list"

definition credentials_message :: string where
  "credentials_message =
     ''AmazonSESAdapter requires valid fromAddress, accessKeyId, secretAccessKey, region.''"

definition templates_message :: string where
  "templates_message = ''AmazonSESAdapter templates are not properly configured.''"

definition callback_message :: string where
  "callback_message = ''AmazonSESAdapter template callback is not a function.''"

text \<open>
  The body of the \<^verbatim>\<open>forEach\<close> over the two built-in slots (lines 69-79), on a
  templates value that is not \<^verbatim>\<open>undefined\<close> or \<^verbatim>\<open>null\<close>: the error it
  throws, if any.
\<close>

definition check_slot :: "jsval \<Rightarrow> string \<Rightarrow> jserror option" where
  "check_slot tpls key =
     (let ref = js_or (field tpls key) (Obj []);
          subject = field ref ''subject'';
          pathPlainText = field ref ''pathPlainText'';
          callback = field ref ''callback''
      in if \<not> is_string subject \<or> \<not> is_string pathPlainText
         then Some (Error templates_message)
         else if truthy callback \<and> \<not> is_function callback
         then Some (Error callback_message)
         else None)"

fun forEach_slots :: "jsval \<Rightarrow> string list \<Rightarrow> jserror option" where
  "forEach_slots tpls [] = None"
| "forEach_slots tpls (key # keys) =
     (case check_slot tpls key of
        Some e \<Rightarrow> Some e
      | None \<Rightarrow> forEach_slots tpls keys)"

fun own_properties :: "jsval \<Rightarrow> (string \<times> jsval) list" where
  "own_properties (Obj kvs) = kvs"
| "own_properties _ = []"

text \<open>
  The constructor (lines 52-84). \<open>Inl\<close> is the error thrown; no adapter exists then.
  The transport client \<^verbatim>\<open>new AmazonSES(accessKeyId, secretAccessKey, region)\<close> is
  external and is kept as the three values it was built from.
\<close>

definition "constructor" :: "jsval \<Rightarrow> jserror + adapter" where
  "constructor arg0 =
     (let options = (if \<not> is_undefined arg0 then arg0 else Obj [])
      in if nullish options then Inl TypeError
         else
           let accessKeyId = field options ''accessKeyId'';
               secretAccessKey = field options ''secretAccessKey'';
               region = field options ''region'';
               fromAddress = field options ''fromAddress''
           in if \<not> truthy accessKeyId \<or> \<not> truthy secretAccessKey \<or> \<not> truthy region
                   \<or> \<not> truthy fromAddress
              then Inl (Error credentials_message)
              else
                let options_templates = field options ''templates'';
                    tpls = (if is_undefined options_templates then Obj [] else options_templates)
                in if nullish tpls then Inl TypeError
                   else
                     (case forEach_slots tpls [''passwordResetEmail'', ''verificationEmail''] of
                        Some e \<Rightarrow> Inl e
                      | None \<Rightarrow>
                          Inr \<lparr> ses = \<lparr> accessKeyId = accessKeyId,
                                         secretAccessKey = secretAccessKey,
                                         region = region \<rparr>,
                                fromAddress = fromAddress,
                                templates = own_properties tpls \<rparr>))"

text \<open>
  A built-in slot that is supplied and well-formed, in the words of the specification: the
  templates object has the slot, its subject and its plain-text path are strings, and its
  callback is either not there (falsy) or a function.
\<close>

definition slot_well_formed :: "(string \<times> jsval) list \<Rightarrow> string \<Rightarrow> bool" where
  "slot_well_formed tpls key =
     (case map_of tpls key of
        None \<Rightarrow> False
      | Some slot \<Rightarrow>
          is_string (field slot ''subject'') \<and> is_string (field slot ''pathPlainText'')
            \<and> (if truthy (field slot ''callback'') then is_function (field slot ''callback'')
                 else True))"


section \<open>Sending\<close>

text \<open>
  The options object that \<^verbatim>\<open>_sendMail\<close> receives from its three wrappers. A property
  that a wrapper does not pass is \<^verbatim>\<open>undefined\<close>. The template name is a string or
  \<^verbatim>\<open>undefined\<close> (\<open>None\<close>); the user object is present or \<^verbatim>\<open>undefined\<close>.
\<close>

record mail_options =
  opt_templateName :: "string option"
  opt_subject :: jsval
  opt_fromAddress :: jsval
  opt_recipient :: jsval
  opt_variables :: jsval
  opt_configurationSetName :: jsval
  opt_link :: jsval
  opt_appName :: jsval
  opt_user :: "user option"
  opt_templateConfig :: jsval

text \<open>The \<^verbatim>\<open>message\<close> object and the other locals that are set before the pipeline starts.\<close>

record message =
  msg_from :: jsval
  msg_to :: jsval
  msg_subject :: jsval

record resolved =
  res_message :: message
  templateVars :: jsval
  pathPlainText :: jsval
  pathHtml :: jsval
  htmlInliner :: jsval
  configurationSetName :: jsval

text \<open>The payload given to \<^verbatim>\<open>this.ses.send\<close> (lines 198-207).\<close>

record payload =
  pl_from :: jsval
  pl_to :: "jsval list"
  pl_subject :: jsval
  pl_body_text :: string
  pl_body_html :: "string option"
  pl_ConfigurationSetName :: jsval

text \<open>
  The external collaborators: \<^verbatim>\<open>fs.readFile\<close>, the \<^verbatim>\<open>lodash.template\<close>
  engine with the \<^verbatim>\<open>{{ }}\<close> delimiter (compiling a text and applying it to the
  variables, either of which may throw), \<^verbatim>\<open>juice\<close>, and the transport's
  \<^verbatim>\<open>send\<close>, which calls back with an error or with data.
\<close>

record capabilities =
  readFile :: "jsval \<Rightarrow> jserror + string"
  lodash_template :: "string \<Rightarrow> jsval \<Rightarrow> jserror + string"
  juice :: "string \<Rightarrow> string"
  ses_send :: "ses_client \<Rightarrow> payload \<Rightarrow> jserror + jsval"

text \<open>What a call does to the outside, in order.\<close>

datatype event =
    LoadTemplate jsval
  | SesSend payload
  | ConsoleError jserror

text \<open>
  What the caller of \<^verbatim>\<open>_sendMail\<close> gets: an exception thrown by the call itself, or
  a promise that fulfils with a value or rejects with an error.
\<close>

datatype outcome = Thrown jserror | Fulfilled jsval | Rejected jserror

definition unknown_template_message :: "string \<Rightarrow> string" where
  "unknown_template_message templateName = ''Could not find template with name '' @ templateName"

definition missing_subject_message :: "string \<Rightarrow> string" where
  "missing_subject_message templateName =
     ''Cannot send email with template '' @ templateName @ '' without a subject''"

definition missing_recipient_message :: "string \<Rightarrow> string" where
  "missing_recipient_message templateName =
     ''Cannot send email with template '' @ templateName @ '' without a recipient''"

text \<open>The branch for a truthy \<^verbatim>\<open>options.templateName\<close> (lines 107-130).\<close>

definition resolve_named :: "adapter \<Rightarrow> mail_options \<Rightarrow> string \<Rightarrow> jserror + resolved" where
  "resolve_named this options templateName =
     (let subject = opt_subject options;
          fromAddress' = opt_fromAddress options;
          recipient = opt_recipient options;
          variables = opt_variables options;
          template = get_member (templates this) templateName
      in if \<not> member_truthy template
         then Inl (Error (unknown_template_message templateName))
         else if \<not> truthy subject \<and> \<not> truthy (member_field template ''subject'')
         then Inl (Error (missing_subject_message templateName))
         else if \<not> truthy recipient
         then Inl (Error (missing_recipient_message templateName))
         else Inr \<lparr> res_message =
                      \<lparr> msg_from = js_or fromAddress' (fromAddress this),
                        msg_to = recipient,
                        msg_subject = js_or subject (member_field template ''subject'') \<rparr>,
                    templateVars = variables,
                    pathPlainText = member_field template ''pathPlainText'',
                    pathHtml = member_field template ''pathHtml'',
                    htmlInliner = member_field template ''htmlInliner'',
                    configurationSetName = opt_configurationSetName options \<rparr>)"

text \<open>
  \<^verbatim>\<open>userVars && userVars.constructor && userVars.constructor.name === 'Object'\<close>
  (line 144).
\<close>

definition validUserVars :: "jsval \<Rightarrow> bool" where
  "validUserVars userVars =
     (truthy userVars \<and> member_truthy (get_constructor userVars)
        \<and> is_Object_name (member_name (get_constructor userVars)))"

text \<open>
  Lines 138-146: \<^verbatim>\<open>userVars\<close> stays \<^verbatim>\<open>undefined\<close> unless the callback is a
  function; then it is the callback's result, or \<^verbatim>\<open>{}\<close> when that result is not
  valid. An exception of the callback leaves \<^verbatim>\<open>_sendMail\<close>.
\<close>

definition userVars :: "jsval \<Rightarrow> user option \<Rightarrow> jserror + jsval" where
  "userVars callback usr =
     (case callback of
        Fn n f \<Rightarrow>
          (case f usr of
             Inl e \<Rightarrow> Inl e
           | Inr v \<Rightarrow> Inr (if validUserVars v then v else Obj []))
      | _ \<Rightarrow> Inr Undefined)"

text \<open>The four variables that every purpose request starts from (lines 152-157).\<close>

definition base_vars :: "jsval \<Rightarrow> jsval \<Rightarrow> user \<Rightarrow> (string \<times> jsval) list" where
  "base_vars link appName usr =
     [(''link'', link),
      (''appName'', appName),
      (''username'', attr (usr ''username'')),
      (''email'', js_or (attr (usr ''email'')) (attr (usr ''username'')))]"

text \<open>The branch for a falsy \<^verbatim>\<open>options.templateName\<close> (lines 132-163).\<close>

definition resolve_purpose :: "adapter \<Rightarrow> mail_options \<Rightarrow> jserror + resolved" where
  "resolve_purpose this options =
     (let templateConfig = opt_templateConfig options
      in if nullish templateConfig then Inl TypeError
         else
           (case userVars (field templateConfig ''callback'') (opt_user options) of
              Inl e \<Rightarrow> Inl e
            | Inr uv \<Rightarrow>
                (case opt_user options of
                   None \<Rightarrow> Inl TypeError
                 | Some usr \<Rightarrow>
                     Inr \<lparr> res_message =
                             \<lparr> msg_from = fromAddress this,
                               msg_to = js_or (attr (usr ''email'')) (attr (usr ''username'')),
                               msg_subject = field templateConfig ''subject'' \<rparr>,
                           templateVars =
                             object_assign (base_vars (opt_link options) (opt_appName options) usr) uv,
                           pathPlainText = field templateConfig ''pathPlainText'',
                           pathHtml = field templateConfig ''pathHtml'',
                           htmlInliner = field templateConfig ''htmlInliner'',
                           configurationSetName = field templateConfig ''configurationSetName'' \<rparr>)))"

text \<open>Lines 106-164: the synchronous part of \<^verbatim>\<open>_sendMail\<close>; \<open>Inl\<close> is thrown.\<close>

definition resolve_message :: "adapter \<Rightarrow> mail_options \<Rightarrow> jserror + resolved" where
  "resolve_message this options =
     (case opt_templateName options of
        None \<Rightarrow> resolve_purpose this options
      | Some templateName \<Rightarrow>
          if templateName \<noteq> [] then resolve_named this options templateName
          else resolve_purpose this options)"

definition make_payload :: "resolved \<Rightarrow> string \<Rightarrow> string option \<Rightarrow> payload" where
  "make_payload r text html =
     \<lparr> pl_from = msg_from (res_message r),
       pl_to = [msg_to (res_message r)],
       pl_subject = msg_subject (res_message r),
       pl_body_text = text,
       pl_body_html = html,
       pl_ConfigurationSetName = configurationSetName r \<rparr>"

text \<open>
  \<^verbatim>\<open>loadEmailTemplate\<close> (lines 298-305) wraps \<^verbatim>\<open>fs.readFile\<close> in a promise that
  rejects with the read error or resolves with the data.
\<close>

definition loadEmailTemplate :: "capabilities \<Rightarrow> jsval \<Rightarrow> jserror + string" where
  "loadEmailTemplate caps path = readFile caps path"

text \<open>
  The generator run by \<^verbatim>\<open>co\<close> (lines 165-208): the payload it returns or the error
  that rejects its promise, with the loads it made.
\<close>

definition compose :: "capabilities \<Rightarrow> resolved \<Rightarrow> (jserror + payload) \<times> event list" where
  "compose caps r =
     (case loadEmailTemplate caps (pathPlainText r) of
        Inl e \<Rightarrow> (Inl e, [LoadTemplate (pathPlainText r)])
      | Inr plainTextEmail \<Rightarrow>
          (case lodash_template caps plainTextEmail (templateVars r) of
             Inl e \<Rightarrow> (Inl e, [LoadTemplate (pathPlainText r)])
           | Inr text \<Rightarrow>
               if truthy (pathHtml r) then
                 (case loadEmailTemplate caps (pathHtml r) of
                    Inl e \<Rightarrow> (Inl e, [LoadTemplate (pathPlainText r), LoadTemplate (pathHtml r)])
                  | Inr htmlEmail \<Rightarrow>
                      (case lodash_template caps htmlEmail (templateVars r) of
                         Inl e \<Rightarrow>
                           (Inl e, [LoadTemplate (pathPlainText r), LoadTemplate (pathHtml r)])
                       | Inr compiledHtml \<Rightarrow>
                           (Inr (make_payload r text
                                   (Some (if truthy (htmlInliner r) then juice caps compiledHtml
                                          else compiledHtml))),
                            [LoadTemplate (pathPlainText r), LoadTemplate (pathHtml r)])))
               else (Inr (make_payload r text None), [LoadTemplate (pathPlainText r)])))"

text \<open>
  \<^verbatim>\<open>_sendMail\<close> (lines 97-218). The two handlers of \<^verbatim>\<open>.then\<close> (lines 208-217):
  a payload goes to the transport, whose error rejects the returned promise; an error of the
  generator goes to \<^verbatim>\<open>console.error\<close>, and the handler returns nothing, so the
  returned promise fulfils with \<^verbatim>\<open>undefined\<close>.
\<close>

definition sendMail :: "adapter \<Rightarrow> capabilities \<Rightarrow> mail_options \<Rightarrow> outcome \<times> event list" where
  "sendMail this caps options =
     (case resolve_message this options of
        Inl e \<Rightarrow> (Thrown e, [])
      | Inr r \<Rightarrow>
          (case compose caps r of
             (Inl error, loads) \<Rightarrow> (Fulfilled Undefined, loads @ [ConsoleError error])
           | (Inr pl, loads) \<Rightarrow>
               (case ses_send caps (ses this) pl of
                  Inl error \<Rightarrow> (Rejected error, loads @ [SesSend pl])
                | Inr data \<Rightarrow> (Fulfilled data, loads @ [SesSend pl]))))"

text \<open>The arguments of the two purpose wrappers and of \<^verbatim>\<open>send\<close>.\<close>

record purpose_request =
  pr_link :: jsval
  pr_appName :: jsval
  pr_user :: user

record named_request =
  nr_templateName :: "string option"
  nr_subject :: jsval
  nr_fromAddress :: jsval
  nr_recipient :: jsval
  nr_variables :: jsval
  nr_configurationSetName :: jsval

definition purpose_options :: "purpose_request \<Rightarrow> jsval \<Rightarrow> mail_options" where
  "purpose_options req templateConfig =
     \<lparr> opt_templateName = None,
       opt_subject = Undefined,
       opt_fromAddress = Undefined,
       opt_recipient = Undefined,
       opt_variables = Undefined,
       opt_configurationSetName = Undefined,
       opt_link = pr_link req,
       opt_appName = pr_appName req,
       opt_user = Some (pr_user req),
       opt_templateConfig = templateConfig \<rparr>"

text \<open>
  Lines 228-260. \<^verbatim>\<open>this.templates.passwordResetEmail\<close> is an own property after a
  successful construction.
\<close>

definition sendPasswordResetEmail ::
  "adapter \<Rightarrow> capabilities \<Rightarrow> purpose_request \<Rightarrow> outcome \<times> event list" where
  "sendPasswordResetEmail this caps req =
     sendMail this caps (purpose_options req (field (Obj (templates this)) ''passwordResetEmail''))"

definition sendVerificationEmail ::
  "adapter \<Rightarrow> capabilities \<Rightarrow> purpose_request \<Rightarrow> outcome \<times> event list" where
  "sendVerificationEmail this caps req =
     sendMail this caps (purpose_options req (field (Obj (templates this)) ''verificationEmail''))"

text \<open>Lines 274-291: \<^verbatim>\<open>variables\<close> defaults to \<^verbatim>\<open>{}\<close> when it is \<^verbatim>\<open>undefined\<close>.\<close>

definition named_options :: "named_request \<Rightarrow> mail_options" where
  "named_options req =
     \<lparr> opt_templateName = nr_templateName req,
       opt_subject = nr_subject req,
       opt_fromAddress = nr_fromAddress req,
       opt_recipient = nr_recipient req,
       opt_variables = (if is_undefined (nr_variables req) then Obj [] else nr_variables req),
       opt_configurationSetName = nr_configurationSetName req,
       opt_link = Undefined,
       opt_appName = Undefined,
       opt_user = None,
       opt_templateConfig = Undefined \<rparr>"

definition send :: "adapter \<Rightarrow> capabilities \<Rightarrow> named_request \<Rightarrow> outcome \<times> event list" where
  "send this caps req = sendMail this caps (named_options req)"


section \<open>A configuration and its collaborators\<close>

text \<open>
  Concrete inputs on which the theorems below are run: a configuration with the two built-in
  slots and two templates of its own, the adapter it constructs, a file system holding the
  plain-text templates, and users with and without attributes.
\<close>

definition verification_callback :: jsval where
  "verification_callback =
     Fn ''callback'' (\<lambda>usr. Inr (Obj [(''constructor'', Str ''ACME''), (''city'', Str ''Oslo'')]))"

definition ex_templates :: "(string \<times> jsval) list" where
  "ex_templates =
     [(''passwordResetEmail'',
         Obj [(''subject'', Str ''Reset''), (''pathPlainText'', Str ''reset.txt'')]),
      (''verificationEmail'',
         Obj [(''subject'', Str ''Verify''), (''pathPlainText'', Str ''verify.txt''),
              (''callback'', verification_callback)]),
      (''welcome'', Obj [(''pathPlainText'', Str ''welcome.txt'')]),
      (''news'', Obj [(''subject'', Str ''News''), (''pathPlainText'', Str ''news.txt'')])]"

definition ex_config :: "jsval \<Rightarrow> jsval" where
  "ex_config tpls =
     Obj [(''accessKeyId'', Str ''AKIA''), (''secretAccessKey'', Str ''secret''),
          (''region'', Str ''eu-west-1''), (''fromAddress'', Str ''noreply@example.com''),
          (''templates'', tpls)]"

definition ex_adapter :: adapter where
  "ex_adapter =
     \<lparr> ses = \<lparr> accessKeyId = Str ''AKIA'', secretAccessKey = Str ''secret'',
                 region = Str ''eu-west-1'' \<rparr>,
       fromAddress = Str ''noreply@example.com'',
       templates = ex_templates \<rparr>"

text \<open>
  Files \<^verbatim>\<open>reset.txt\<close>, \<^verbatim>\<open>verify.txt\<close>, \<^verbatim>\<open>welcome.txt\<close> and
  \<^verbatim>\<open>news.txt\<close> exist; \<^verbatim>\<open>fs.readFile\<close> fails with \<^verbatim>\<open>ENOENT\<close> on any
  other path and throws a TypeError on a path that is not a string. The templates hold no
  placeholder, so interpolation returns them as they are.
\<close>

definition ex_readFile :: "jsval \<Rightarrow> jserror + string" where
  "ex_readFile path =
     (case path of
        Str p \<Rightarrow>
          if p \<in> set [''reset.txt'', ''verify.txt'', ''welcome.txt'', ''news.txt'']
          then Inr (''Body of '' @ p)
          else Inl (Error ''ENOENT'')
      | _ \<Rightarrow> Inl TypeError)"

definition ex_caps :: capabilities where
  "ex_caps =
     \<lparr> readFile = ex_readFile,
       lodash_template = (\<lambda>text vars. Inr text),
       juice = (\<lambda>html. html),
       ses_send = (\<lambda>client pl. Inr (Str ''MessageId'')) \<rparr>"

text \<open>The same collaborators over a file system on which every read fails.\<close>

definition failing_caps :: capabilities where
  "failing_caps = ex_caps \<lparr> readFile := (\<lambda>path. Inl (Error ''ENOENT'')) \<rparr>"

definition ann :: user where
  "ann name =
     (if name = ''email'' then Some ''ann@example.com''
      else if name = ''username'' then Some ''ann'' else None)"

definition nobody :: user where
  "nobody name = None"

definition ex_purpose_request :: "user \<Rightarrow> purpose_request" where
  "ex_purpose_request usr =
     \<lparr> pr_link = Str ''http://x/reset'', pr_appName = Str ''App'', pr_user = usr \<rparr>"

definition ex_named_request :: "string option \<Rightarrow> jsval \<Rightarrow> jsval \<Rightarrow> named_request" where
  "ex_named_request name subject recipient =
     \<lparr> nr_templateName = name,
       nr_subject = subject,
       nr_fromAddress = Undefined,
       nr_recipient = recipient,
       nr_variables = Undefined,
       nr_configurationSetName = Undefined \<rparr>"

section \<open>Properties of construction\<close>

text \<open>
  Only a plain object passes the checks of the two slots, so \<open>own_properties\<close> in
  \<open>constructor\<close> is always applied to one: the templates of a constructed adapter are the
  own properties of the configured templates object.
\<close>

lemma forEach_slots_plain:
  "forEach_slots tpls (key # keys) = None \<Longrightarrow> \<exists>kvs. tpls = Obj kvs"
  by (cases tpls) (auto simp: check_slot_def js_or_def Let_def split: option.splits if_splits)

lemma constructor_templates_plain:
  assumes "constructor arg0 = Inr this"
  shows "field arg0 ''templates'' = Obj (templates this)"
proof -
  let ?options = "if \<not> is_undefined arg0 then arg0 else Obj []"
  let ?t = "field ?options ''templates''"
  let ?tpls = "if is_undefined ?t then Obj [] else ?t"
  from assms have ok: "forEach_slots ?tpls [''passwordResetEmail'', ''verificationEmail''] = None"
    and tp: "templates this = own_properties ?tpls"
    by (auto simp: constructor_def Let_def split: if_splits option.splits)
  from forEach_slots_plain [OF ok] obtain kvs where kvs: "?tpls = Obj kvs" by blast
  have "kvs \<noteq> []"
    using ok kvs by (auto simp: check_slot_def js_or_def split: if_splits)
  then have "?t = Obj kvs"
    using kvs by (auto split: if_splits)
  moreover have "?t = field arg0 ''templates''"
    by (cases arg0) auto
  ultimately show ?thesis
    using tp kvs by simp
qed

lemma field_string_truthy: "is_string (field v k) \<Longrightarrow> truthy v"
  by (cases v) auto

lemma check_slot_well_formed:
  "check_slot (Obj tpls) key = None \<longleftrightarrow> slot_well_formed tpls key"
  by (auto simp: check_slot_def slot_well_formed_def js_or_def Let_def
      dest: field_string_truthy split: option.splits)

lemma check_slot_error:
  "check_slot tpls key = Some e \<Longrightarrow> e = Error templates_message \<or> e = Error callback_message"
  by (auto simp: check_slot_def Let_def split: if_splits)

text \<open>
  C9. Whenever one of \<^verbatim>\<open>accessKeyId\<close>, \<^verbatim>\<open>secretAccessKey\<close>, \<^verbatim>\<open>region\<close>
  and \<^verbatim>\<open>fromAddress\<close> is missing (\<open>Undefined\<close>) or empty (the empty string), or falsy
  in any other way, the constructor throws the configuration error and returns no adapter.
  This holds for every argument but \<^verbatim>\<open>null\<close>, on which reading the first field raises
  a TypeError; no argument at all is the empty configuration.
\<close>

theorem constructor_requires_credentials:
  assumes "options \<noteq> Null"
    and "k \<in> {''accessKeyId'', ''secretAccessKey'', ''region'', ''fromAddress''}"
    and "\<not> truthy (field options k)"
  shows "constructor options = Inl (Error credentials_message)"
  using assms by (cases options) (auto simp: constructor_def Let_def)

theorem constructor_requires_credentials_witness:
  "constructor (Obj [(''accessKeyId'', Str []), (''secretAccessKey'', Str ''secret''),
                     (''region'', Str ''eu-west-1''), (''fromAddress'', Str ''noreply@example.com''),
                     (''templates'', Obj ex_templates)])
     = Inl (Error credentials_message)"
  using constructor_requires_credentials
    [of "Obj [(''accessKeyId'', Str []), (''secretAccessKey'', Str ''secret''),
              (''region'', Str ''eu-west-1''), (''fromAddress'', Str ''noreply@example.com''),
              (''templates'', Obj ex_templates)]" "''accessKeyId''"]
  by simp

text \<open>
  C2, as the code has it. With the four credentials present and a templates object (an
  omitted one is the empty object), the constructor succeeds exactly when both built-in
  slots are supplied and well-formed, and the adapter then holds the sender and the
  templates as given; otherwise it throws one of the two configuration errors. An absent
  slot is not well-formed: the loop of lines 69-79 runs over both slot names and reads an
  absent slot as \<^verbatim>\<open>{}\<close>, whose subject is not a string.
\<close>

theorem constructor_needs_both_slots:
  assumes "truthy (field options ''accessKeyId'')"
    and "truthy (field options ''secretAccessKey'')"
    and "truthy (field options ''region'')"
    and "truthy (field options ''fromAddress'')"
    and "field options ''templates'' = Obj tpls
         \<or> (field options ''templates'' = Undefined \<and> tpls = [])"
  shows "(slot_well_formed tpls ''passwordResetEmail'' \<and> slot_well_formed tpls ''verificationEmail''
            \<longrightarrow> constructor options =
                 Inr \<lparr> ses = \<lparr> accessKeyId = field options ''accessKeyId'',
                                secretAccessKey = field options ''secretAccessKey'',
                                region = field options ''region'' \<rparr>,
                       fromAddress = field options ''fromAddress'',
                       templates = tpls \<rparr>)
       \<and> (\<not> (slot_well_formed tpls ''passwordResetEmail''
                \<and> slot_well_formed tpls ''verificationEmail'')
            \<longrightarrow> constructor options = Inl (Error templates_message)
                 \<or> constructor options = Inl (Error callback_message))"
proof -
  from assms(1) obtain kvs where o: "options = Obj kvs"
    by (cases options) auto
  have n: "\<not> nullish options" "\<not> is_undefined options" using o by auto
  have c: "constructor options =
     (case forEach_slots (Obj tpls) [''passwordResetEmail'', ''verificationEmail''] of
        Some e \<Rightarrow> Inl e
      | None \<Rightarrow> Inr \<lparr> ses = \<lparr> accessKeyId = field options ''accessKeyId'',
                                secretAccessKey = field options ''secretAccessKey'',
                                region = field options ''region'' \<rparr>,
                       fromAddress = field options ''fromAddress'',
                       templates = tpls \<rparr>)"
    using assms(5)
  proof
    assume "field options ''templates'' = Obj tpls"
    then show ?thesis
      using assms(1-4) n by (simp add: constructor_def Let_def split: option.splits)
  next
    assume "field options ''templates'' = Undefined \<and> tpls = []"
    then show ?thesis
      using assms(1-4) n by (simp add: constructor_def Let_def split: option.splits)
  qed
  show ?thesis
    unfolding c using check_slot_error [of "Obj tpls"]
    by (auto simp: check_slot_well_formed [symmetric] split: option.splits)
qed

theorem constructor_needs_both_slots_witness:
  "constructor (ex_config (Obj ex_templates)) = Inr ex_adapter"
  using constructor_needs_both_slots [of "ex_config (Obj ex_templates)" ex_templates]
  by (simp add: ex_config_def ex_templates_def ex_adapter_def slot_well_formed_def
      verification_callback_def)

text \<open>
  The claim C2 as the specification states it fails: a configuration with all four
  credentials and a well-formed \<^verbatim>\<open>passwordResetEmail\<close> slot, but no
  \<^verbatim>\<open>verificationEmail\<close> slot, is refused.
\<close>

theorem absent_slot_fails_construction:
  "constructor (ex_config (Obj [(''passwordResetEmail'',
       Obj [(''subject'', Str ''Reset''), (''pathPlainText'', Str ''reset.txt'')])]))
   = Inl (Error templates_message)"
  by (simp add: constructor_def ex_config_def check_slot_def js_or_def)

section \<open>Properties of sending\<close>

subsection \<open>Dispatch on the template name\<close>

lemma resolve_message_named:
  "opt_templateName options = Some name \<Longrightarrow> name \<noteq> [] \<Longrightarrow>
   resolve_message this options = resolve_named this options name"
  by (simp add: resolve_message_def)

lemma resolve_message_purpose:
  "opt_templateName options = None \<or> opt_templateName options = Some [] \<Longrightarrow>
   resolve_message this options = resolve_purpose this options"
  by (auto simp: resolve_message_def)

lemma sendMail_thrown:
  "resolve_message this options = Inl e \<Longrightarrow> sendMail this caps options = (Thrown e, [])"
  by (simp add: sendMail_def)

text \<open>
  C10. A call of \<^verbatim>\<open>send\<close> whose template name is \<^verbatim>\<open>undefined\<close> or the empty
  string takes the branch of the purpose requests; \<^verbatim>\<open>send\<close> passes no
  \<^verbatim>\<open>templateConfig\<close>, so reading its \<^verbatim>\<open>callback\<close> raises a TypeError, thrown by
  the call before anything is loaded or sent. The error is not the one of the unknown
  template: the checks of the named branch are not reached.
\<close>

theorem send_falsy_templateName:
  assumes "nr_templateName req = None \<or> nr_templateName req = Some []"
  shows "send this caps req = (Thrown TypeError, [])
       \<and> (\<forall>name. fst (send this caps req) \<noteq> Thrown (Error (unknown_template_message name)))"
proof -
  have "resolve_message this (named_options req) = resolve_purpose this (named_options req)"
    using assms by (intro resolve_message_purpose) (simp add: named_options_def)
  moreover have "resolve_purpose this (named_options req) = Inl TypeError"
    by (simp add: resolve_purpose_def named_options_def)
  ultimately show ?thesis
    by (simp add: send_def sendMail_thrown)
qed

theorem send_falsy_templateName_witness:
  "send ex_adapter ex_caps (ex_named_request (Some []) (Str ''Hi'') (Str ''bob@example.com''))
     = (Thrown TypeError, [])"
  using send_falsy_templateName
    [of "ex_named_request (Some []) (Str ''Hi'') (Str ''bob@example.com'')" ex_adapter ex_caps]
  by (simp add: ex_named_request_def)

subsection \<open>Named requests\<close>

lemma named_options_sel:
  "opt_templateName (named_options req) = nr_templateName req"
  "opt_subject (named_options req) = nr_subject req"
  "opt_fromAddress (named_options req) = nr_fromAddress req"
  "opt_recipient (named_options req) = nr_recipient req"
  "opt_configurationSetName (named_options req) = nr_configurationSetName req"
  by (simp_all add: named_options_def)

lemma resolve_named_request:
  "nr_templateName req = Some name \<Longrightarrow> name \<noteq> [] \<Longrightarrow>
   resolve_message this (named_options req) = resolve_named this (named_options req) name"
  by (intro resolve_message_named) (simp_all add: named_options_sel)




text \<open>
  C6, as the code has it. A named request whose template is found and whose recipient is
  missing never loads a template: \<^verbatim>\<open>send\<close> throws before the pipeline starts. The
  error is the missing-recipient error when a subject is given by the call or by the
  template; when the subject is missing too, the subject is checked first (line 117 comes
  before line 118) and the error is the missing-subject error.
\<close>

theorem named_without_recipient:
  assumes "nr_templateName req = Some name"
    and "name \<noteq> []"
    and "member_truthy (get_member (templates this) name)"
    and "\<not> truthy (nr_recipient req)"
  shows "send this caps req =
           (Thrown (Error
              (if \<not> truthy (nr_subject req)
                    \<and> \<not> truthy (member_field (get_member (templates this) name) ''subject'')
               then missing_subject_message name
               else missing_recipient_message name)), [])"
  using assms
  by (auto simp: send_def sendMail_def resolve_named_request resolve_named_def named_options_sel
      Let_def)

theorem named_without_recipient_witness:
  "send ex_adapter ex_caps (ex_named_request (Some ''news'') Undefined Undefined)
     = (Thrown (Error (missing_recipient_message ''news'')), [])"
  using named_without_recipient
    [of "ex_named_request (Some ''news'') Undefined Undefined" "''news''" ex_adapter ex_caps]
  by (simp add: ex_named_request_def ex_adapter_def ex_templates_def get_member_def)

text \<open>
  The claim C6 as the specification states it fails: the template \<^verbatim>\<open>welcome\<close> is
  known and has no subject; a request for it with neither subject nor recipient fails with
  the missing-subject error, not with the missing-recipient error.
\<close>

theorem missing_subject_reported_first:
  "send ex_adapter ex_caps (ex_named_request (Some ''welcome'') Undefined Undefined)
     = (Thrown (Error ''Cannot send email with template welcome without a subject''), [])"
  by (simp add: send_def sendMail_def named_options_def resolve_message_def resolve_named_def
      get_member_def object_prototype_def js_or_def compose_def loadEmailTemplate_def
      make_payload_def missing_subject_message_def ex_named_request_def ex_adapter_def
      ex_templates_def ex_caps_def ex_readFile_def)

text \<open>
  A template name that is neither an own property of the templates object nor a property
  name of \<^verbatim>\<open>Object.prototype\<close> is refused with the unknown-template error before
  anything is loaded.
\<close>

lemma unknown_template_refused:
  assumes "nr_templateName req = Some name"
    and "name \<noteq> []"
    and "map_of (templates this) name = None"
    and "name \<notin> set object_prototype"
  shows "send this caps req = (Thrown (Error (unknown_template_message name)), [])"
  using assms
  by (simp add: send_def sendMail_def resolve_named_request resolve_named_def get_member_def
      named_options_sel)

text \<open>
  C5 fails on the code for the names that a plain object inherits. The templates of
  \<open>ex_adapter\<close> have no key \<^verbatim>\<open>constructor\<close>, but \<^verbatim>\<open>this.templates['constructor']\<close>
  is the inherited \<^verbatim>\<open>Object\<close> function, which is truthy: the check of line 116 passes,
  the template paths are \<^verbatim>\<open>undefined\<close>, and \<^verbatim>\<open>loadEmailTemplate(undefined)\<close> is
  called. No unknown-template error is raised; the TypeError of the read is logged and the
  promise fulfils with \<^verbatim>\<open>undefined\<close>.
\<close>

theorem inherited_name_passes_template_check:
  "map_of (templates ex_adapter) ''constructor'' = None
   \<and> send ex_adapter ex_caps
         (ex_named_request (Some ''constructor'') (Str ''Hi'') (Str ''bob@example.com''))
       = (Fulfilled Undefined, [LoadTemplate Undefined, ConsoleError TypeError])"
  by (simp add: send_def sendMail_def named_options_def resolve_message_def resolve_named_def
      get_member_def object_prototype_def js_or_def compose_def loadEmailTemplate_def
      make_payload_def missing_subject_message_def ex_named_request_def ex_adapter_def
      ex_templates_def ex_caps_def ex_readFile_def)

subsection \<open>Purpose requests\<close>

lemma purpose_options_sel:
  "opt_templateName (purpose_options req templateConfig) = None"
  "opt_link (purpose_options req templateConfig) = pr_link req"
  "opt_appName (purpose_options req templateConfig) = pr_appName req"
  "opt_user (purpose_options req templateConfig) = Some (pr_user req)"
  "opt_templateConfig (purpose_options req templateConfig) = templateConfig"
  by (simp_all add: purpose_options_def)

text \<open>
  A purpose request whose slot is configured and whose callback, if there is one, returns:
  the request resolves, the recipient is the user's email attribute when that is a non-empty
  string and the username attribute otherwise, and the variables are the four base variables
  with the valid result of the callback written over them.
\<close>

lemma resolve_purpose_request:
  assumes "\<not> nullish templateConfig"
    and "userVars (field templateConfig ''callback'') (Some (pr_user req)) = Inr uv"
  shows "\<exists>r. resolve_message this (purpose_options req templateConfig) = Inr r
           \<and> msg_to (res_message r) =
               js_or (attr (pr_user req ''email'')) (attr (pr_user req ''username''))
           \<and> msg_from (res_message r) = fromAddress this
           \<and> msg_subject (res_message r) = field templateConfig ''subject''
           \<and> templateVars r = object_assign (base_vars (pr_link req) (pr_appName req) (pr_user req)) uv"
  using assms
  by (simp add: resolve_message_def resolve_purpose_def purpose_options_sel)

text \<open>
  C3 fails on the code when the user has neither attribute. The named branch checks its
  recipient (line 118); the purpose branch does not: \<^verbatim>\<open>user.get('email') ||
  user.get('username')\<close> is \<^verbatim>\<open>undefined\<close>, no error is raised, the template is loaded
  and the payload goes to the transport with the recipients \<^verbatim>\<open>[undefined]\<close>.
\<close>

theorem purpose_without_recipient_is_sent:
  "sendPasswordResetEmail ex_adapter ex_caps (ex_purpose_request nobody)
     = (Fulfilled (Str ''MessageId''),
        [LoadTemplate (Str ''reset.txt''),
         SesSend \<lparr> pl_from = Str ''noreply@example.com'',
                   pl_to = [Undefined],
                   pl_subject = Str ''Reset'',
                   pl_body_text = ''Body of reset.txt'',
                   pl_body_html = None,
                   pl_ConfigurationSetName = Undefined \<rparr>])"
  by (simp add: sendPasswordResetEmail_def sendMail_def purpose_options_def resolve_message_def
      resolve_purpose_def userVars_def validUserVars_def base_vars_def js_or_def attr_def
      compose_def loadEmailTemplate_def make_payload_def ex_adapter_def ex_templates_def
      ex_caps_def ex_readFile_def ex_purpose_request_def verification_callback_def nobody_def)

text \<open>
  The result of a callback that is not a plain object is ignored, and a plain object without
  an own property \<^verbatim>\<open>constructor\<close> is taken as it is.
\<close>

lemma validUserVars_not_plain: "\<forall>kvs. v \<noteq> Obj kvs \<Longrightarrow> \<not> validUserVars v"
  by (cases v) (auto simp: validUserVars_def)

lemma validUserVars_plain: "map_of kvs ''constructor'' = None \<Longrightarrow> validUserVars (Obj kvs)"
  by (simp add: validUserVars_def)

lemma userVars_not_plain:
  "f usr = Inr v \<Longrightarrow> \<forall>kvs. v \<noteq> Obj kvs \<Longrightarrow> userVars (Fn n f) usr = Inr (Obj [])"
  by (simp add: userVars_def validUserVars_not_plain)

lemma userVars_plain:
  "f usr = Inr (Obj kvs) \<Longrightarrow> map_of kvs ''constructor'' = None \<Longrightarrow>
   userVars (Fn n f) usr = Inr (Obj kvs)"
  by (simp add: userVars_def validUserVars_plain)

lemma object_assign_overlay:
  "object_assign base (Obj kvs) = Obj vars \<Longrightarrow>
   map_of vars = map_of base ++ (map_of kvs |` {k. k \<noteq> ''__proto__''})"
  using map_of_filter [of "\<lambda>k. k \<noteq> ''__proto__''" kvs] by auto

text \<open>
  C7 fails on the code for a plain mapping that has a key \<^verbatim>\<open>constructor\<close>. The
  callback of the \<^verbatim>\<open>verificationEmail\<close> slot of \<open>ex_adapter\<close> returns the object
  literal \<^verbatim>\<open>{constructor: 'ACME', city: 'Oslo'}\<close>. Line 144 reads its own property
  \<^verbatim>\<open>constructor\<close>, a string whose \<^verbatim>\<open>name\<close> is \<^verbatim>\<open>undefined\<close>, so the mapping is
  taken as not packaged in an object and the variables are the four base variables alone.
\<close>

theorem own_constructor_key_drops_overlay:
  "map_sum id templateVars
     (resolve_message ex_adapter
        (purpose_options (ex_purpose_request ann)
           (field (Obj (templates ex_adapter)) ''verificationEmail'')))
     = Inr (Obj [(''link'', Str ''http://x/reset''), (''appName'', Str ''App''),
                 (''username'', Str ''ann''), (''email'', Str ''ann@example.com'')])"
  by (simp add: sendMail_def purpose_options_def resolve_message_def
      resolve_purpose_def userVars_def validUserVars_def base_vars_def js_or_def attr_def
      compose_def loadEmailTemplate_def make_payload_def ex_adapter_def ex_templates_def
      ex_caps_def ex_readFile_def ex_purpose_request_def verification_callback_def ann_def)

subsection \<open>The pipeline\<close>

lemma compose_loads_only:
  "compose caps r = (res, loads) \<Longrightarrow> ev \<in> set loads \<Longrightarrow>
   ev = LoadTemplate (pathPlainText r) \<or> ev = LoadTemplate (pathHtml r)"
  by (auto simp: compose_def split: sum.splits if_splits)

lemma compose_load_failure:
  assumes "loadEmailTemplate caps (pathPlainText r) = Inl cause
         \<or> (loadEmailTemplate caps (pathPlainText r) = Inr plain
              \<and> lodash_template caps plain (templateVars r) = Inr text
              \<and> truthy (pathHtml r)
              \<and> loadEmailTemplate caps (pathHtml r) = Inl cause)"
  shows "\<exists>loads. compose caps r = (Inl cause, loads)"
  using assms by (auto simp: compose_def)

text \<open>
  C1, as the code has it. When the load of the plain-text template fails, or that of the
  HTML template after the plain text was loaded and interpolated, the transport is not
  invoked: the events of the call are loads followed by one \<^verbatim>\<open>console.error\<close> of the
  cause. The returned promise is not rejected: the error handler of line 215 logs the cause
  and returns nothing, so the promise fulfils with \<^verbatim>\<open>undefined\<close>.
\<close>

theorem load_failure_is_logged:
  assumes "resolve_message this options = Inr r"
    and "loadEmailTemplate caps (pathPlainText r) = Inl cause
         \<or> (loadEmailTemplate caps (pathPlainText r) = Inr plain
              \<and> lodash_template caps plain (templateVars r) = Inr text
              \<and> truthy (pathHtml r)
              \<and> loadEmailTemplate caps (pathHtml r) = Inl cause)"
  shows "\<exists>loads. sendMail this caps options = (Fulfilled Undefined, loads @ [ConsoleError cause])
           \<and> (\<forall>ev \<in> set loads. \<exists>path. ev = LoadTemplate path)"
proof -
  from compose_load_failure [OF assms(2)]
  obtain loads where c: "compose caps r = (Inl cause, loads)" by blast
  have "\<forall>ev \<in> set loads. \<exists>path. ev = LoadTemplate path"
    using compose_loads_only [OF c] by blast
  moreover have "sendMail this caps options = (Fulfilled Undefined, loads @ [ConsoleError cause])"
    using assms(1) c by (simp add: sendMail_def)
  ultimately show ?thesis by blast
qed

lemma ex_reset_resolved:
  "resolve_message ex_adapter
     (purpose_options (ex_purpose_request ann)
        (field (Obj (templates ex_adapter)) ''passwordResetEmail''))
   = Inr \<lparr> res_message = \<lparr> msg_from = Str ''noreply@example.com'',
                            msg_to = Str ''ann@example.com'',
                            msg_subject = Str ''Reset'' \<rparr>,
           templateVars = Obj (base_vars (Str ''http://x/reset'') (Str ''App'') ann),
           pathPlainText = Str ''reset.txt'',
           pathHtml = Undefined,
           htmlInliner = Undefined,
           configurationSetName = Undefined \<rparr>"
  by (simp add: resolve_message_def resolve_purpose_def purpose_options_def userVars_def
      ex_adapter_def ex_templates_def ex_purpose_request_def js_or_def attr_def ann_def)

theorem load_failure_is_logged_witness:
  "fst (sendMail ex_adapter failing_caps
          (purpose_options (ex_purpose_request ann)
             (field (Obj (templates ex_adapter)) ''passwordResetEmail'')))
     = Fulfilled Undefined
   \<and> last (snd (sendMail ex_adapter failing_caps
          (purpose_options (ex_purpose_request ann)
             (field (Obj (templates ex_adapter)) ''passwordResetEmail''))))
     = ConsoleError (Error ''ENOENT'')"
proof -
  have "loadEmailTemplate failing_caps (Str ''reset.txt'') = Inl (Error ''ENOENT'')"
    by (simp add: loadEmailTemplate_def failing_caps_def)
  then obtain loads where
    "sendMail ex_adapter failing_caps
       (purpose_options (ex_purpose_request ann)
          (field (Obj (templates ex_adapter)) ''passwordResetEmail''))
     = (Fulfilled Undefined, loads @ [ConsoleError (Error ''ENOENT'')])"
    using load_failure_is_logged [OF ex_reset_resolved, of failing_caps "Error ''ENOENT''"]
    by auto
  then show ?thesis by simp
qed

text \<open>
  The claim C1 as the specification states it fails: on a file system where the read of
  \<^verbatim>\<open>reset.txt\<close> fails, the promise of \<^verbatim>\<open>sendPasswordResetEmail\<close> is not
  rejected with the cause, it fulfils with \<^verbatim>\<open>undefined\<close>.
\<close>

theorem load_failure_fulfils_undefined:
  "sendPasswordResetEmail ex_adapter failing_caps (ex_purpose_request ann)
     = (Fulfilled Undefined, [LoadTemplate (Str ''reset.txt''), ConsoleError (Error ''ENOENT'')])"
  by (simp add: sendPasswordResetEmail_def sendMail_def purpose_options_def resolve_message_def
      resolve_purpose_def userVars_def validUserVars_def base_vars_def js_or_def attr_def
      compose_def loadEmailTemplate_def make_payload_def ex_adapter_def ex_templates_def
      ex_caps_def ex_readFile_def ex_purpose_request_def verification_callback_def ann_def
      failing_caps_def)




end
